theory Spec2Isabelle
  imports Complex_Main "HOL-Library.Sublist"
begin

unbundle bit_operations_syntax

section \<open>The camera-trap detection pipeline (run_tf_detector.py, server.py)\<close>

text \<open>
  Numbers. The detector's scores and box coordinates are floating-point values in the
  source; here a float is the real number it stands for. Comparisons of floats are
  exact, so they are the comparisons of reals. The two places where the source does
  arithmetic on floats, the subtractions of \<open>__convert_coords\<close> on the entries of the
  box tensor (binary32) and the additions of \<open>convert_to_tf_coords\<close> on Python floats
  (binary64), round their exact result to the nearest value of the format, ties to
  even; this rounding is defined below. The class tensor of the detector holds whole
  numbers, modelled as \<open>int\<close>: Python's \<open>int(c)\<close> and the comparison \<open>c == 3\<close> are
  then exact. A box is a row of the detector's \<open>[N, 4]\<close> box tensor,
  \<open>[y1, x1, y2, x2]\<close>, modelled as a four-tuple.
\<close>

subsection \<open>Python values and exceptions\<close>

datatype py_error = KeyError string | IndexError | Raised string

type_synonym tf_box = "real \<times> real \<times> real \<times> real"

type_synonym raw_detection = "tf_box \<times> real \<times> int"

text \<open>
  Indexing a tensor's batch dimension at 0, as in \<open>b_box[0]\<close>; an empty batch has no
  such entry.
\<close>

fun item0 :: "'a list \<Rightarrow> py_error + 'a" where
  "item0 (x # rest) = Inr x"
| "item0 [] = Inl IndexError"

text \<open>Python's \<open>str\<close> of an integer: its decimal digits, with a leading minus sign.\<close>

definition digit_char :: "nat \<Rightarrow> char" where
  "digit_char d = char_of (48 + d)"

fun digits :: "nat \<Rightarrow> string" where
  "digits n = (if n < 10 then [digit_char n] else digits (n div 10) @ [digit_char (n mod 10)])"

declare digits.simps [simp del]

definition str_int :: "int \<Rightarrow> string" where
  "str_int i = (if i < 0 then CHR ''-'' # digits (nat (- i)) else digits (nat i))"

subsection \<open>Constants of class TFDetector\<close>

definition CONF_DIGITS :: nat where
  "CONF_DIGITS = 3"

definition COORD_DIGITS :: nat where
  "COORD_DIGITS = 4"

definition FAILURE_TF_INFER :: string where
  "FAILURE_TF_INFER = ''Failure TF inference''"

definition DEFAULT_RENDERING_CONFIDENCE_THRESHOLD :: real where
  "DEFAULT_RENDERING_CONFIDENCE_THRESHOLD = 85 / 100"

definition DEFAULT_OUTPUT_CONFIDENCE_THRESHOLD :: real where
  "DEFAULT_OUTPUT_CONFIDENCE_THRESHOLD = 1 / 10"

definition DEFAULT_DETECTOR_LABEL_MAP :: "(string \<times> string) list" where
  "DEFAULT_DETECTOR_LABEL_MAP = [(''1'', ''animal''), (''2'', ''person''), (''3'', ''vehicle'')]"

subsection \<open>Truncation of a float\<close>

text \<open>
  Modelled from the spec: \<open>truncate_float\<close> of module \<open>ct_utils\<close>, which
  run_tf_detector.py imports and which is not among the sources. The spec says of it
  that each value is "rounded (truncated toward the configured precision, not
  banker's-rounded)" to the given number of decimal digits: the digits after that
  decimal place are cut off.
\<close>

definition truncate_float :: "real \<Rightarrow> nat \<Rightarrow> real" where
  "truncate_float x precision =
     sgn x * of_int \<lfloor>\<bar>x\<bar> * 10 ^ precision\<rfloor> / 10 ^ precision"

definition round_and_make_float :: "real \<Rightarrow> nat \<Rightarrow> real" where
  "round_and_make_float d precision = truncate_float d precision"

subsection \<open>Rounding to a binary floating-point format\<close>

text \<open>
  Rounding of a real to the nearest integer, a tie going to the even one.
\<close>

definition round_half_even :: "real \<Rightarrow> int" where
  "round_half_even y =
     (let f = \<lfloor>y\<rfloor>; d = y - of_int f
      in if d < 1 / 2 then f else if 1 / 2 < d then f + 1 else if even f then f else f + 1)"

text \<open>The number of binary digits of a positive integer.\<close>

function bit_length :: "int \<Rightarrow> nat" where
  "bit_length n = (if n \<le> 0 then 0 else Suc (bit_length (n div 2)))"
  by pat_completeness auto
termination
  by (relation "measure nat") auto

declare bit_length.simps [simp del]

text \<open>
  \<open>float_round p m x\<close> is the value nearest to \<open>x\<close> in the binary format with \<open>p\<close>
  significant bits whose smallest positive value is \<open>2 ^ - m\<close> (ties to even). The
  spacing \<open>q\<close> of the format around \<open>x\<close> is \<open>2 ^ - m\<close> up to the end of the subnormal
  range and doubles with every binade after it. Overflow to infinity is not modelled:
  box coordinates and their sums are far below the largest finite value.
\<close>

definition float_round :: "nat \<Rightarrow> nat \<Rightarrow> real \<Rightarrow> real" where
  "float_round p m x =
     (let n = \<lfloor>\<bar>x\<bar> * 2 ^ m\<rfloor>;
          k = bit_length n - p;
          q = 2 ^ k / 2 ^ m
      in sgn x * of_int (round_half_even (\<bar>x\<bar> / q)) * q)"

text \<open>binary32, the type of the detector's tensors (numpy \<open>float32\<close>).\<close>

definition float32 :: "real \<Rightarrow> real" where
  "float32 x = float_round 24 149 x"

text \<open>binary64, the type of a Python \<open>float\<close>.\<close>

definition float64 :: "real \<Rightarrow> real" where
  "float64 x = float_round 53 1074 x"

subsection \<open>Coordinate conversion\<close>

text \<open>
  \<open>TFDetector.__convert_coords\<close>: from \<open>[y1, x1, y2, x2]\<close> to \<open>[x1, y1, width, height]\<close>.
  The argument is a row of the box tensor, so the two differences are binary32
  subtractions: the exact difference, rounded to binary32. \<open>float(d)\<close> then turns a
  binary32 value into the same binary64 value.
\<close>

fun convert_coords :: "tf_box \<Rightarrow> real list" where
  "convert_coords (c0, c1, c2, c3) =
     (let width = float32 (c3 - c1);
          height = float32 (c2 - c0);
          new = [c1, c0, width, height]
      in map (\<lambda>d. round_and_make_float d COORD_DIGITS) new)"

text \<open>
  \<open>TFDetector.convert_to_tf_coords\<close>: from \<open>[x1, y1, width, height]\<close> back to
  \<open>[y1, x1, y2, x2]\<close>. The argument is any sequence; reading index 3 of a shorter one
  raises IndexError. Its entries are Python floats: an entry is read as the binary64
  value nearest to it (itself, when it is one), and the two sums are binary64
  additions.
\<close>

definition convert_to_tf_coords :: "real list \<Rightarrow> py_error + real list" where
  "convert_to_tf_coords array =
     (if length array < 4 then Inl IndexError
      else
        let x1 = float64 (array ! 0);
            y1 = float64 (array ! 1);
            width = float64 (array ! 2);
            height = float64 (array ! 3);
            x2 = float64 (x1 + width);
            y2 = float64 (y1 + height)
        in Inr [y1, x1, y2, x2])"

subsection \<open>The per-image result\<close>

text \<open>A detection entry: the dict with keys \<open>category\<close>, \<open>conf\<close>, \<open>bbox\<close>.\<close>

record detection =
  category :: string
  conf :: real
  bbox :: "real list"

text \<open>The entry built for a detection that passes the threshold.\<close>

definition detection_entry :: "raw_detection \<Rightarrow> detection" where
  "detection_entry r =
     (case r of (b, s, c) \<Rightarrow>
        \<lparr>category = str_int c,
         conf = truncate_float s CONF_DIGITS,
         bbox = convert_coords b\<rparr>)"

text \<open>
  The loop over \<open>zip(boxes, scores, classes)\<close>. Its state is
  \<open>(detections_cur_image, max_detection_conf, animal)\<close>.
\<close>

fun detections_loop ::
  "real \<Rightarrow> raw_detection list \<Rightarrow> detection list \<times> real \<times> int \<Rightarrow> detection list \<times> real \<times> int" where
  "detections_loop detection_threshold [] st = st"
| "detections_loop detection_threshold ((b, s, c) # rest) (detections_cur_image, max_detection_conf, animal) =
     (if c = 3 then
        detections_loop detection_threshold rest (detections_cur_image, max_detection_conf, animal)
      else
        let (dets, mx) =
              (if s > detection_threshold then
                 (detections_cur_image @ [detection_entry (b, s, c)],
                  (if s > max_detection_conf then s else max_detection_conf))
               else (detections_cur_image, max_detection_conf));
            animal' = (if c = 1 then 1 else animal)
        in detections_loop detection_threshold rest (dets, mx, animal'))"

text \<open>
  The result dict. Its key \<open>file\<close> (field \<open>file_name\<close>) is always present; the
  keys \<open>max_detection_conf\<close>, \<open>detections\<close> and \<open>failure\<close> are present only once
  they have been assigned
  (\<open>None\<close>: the key is absent).
\<close>

record 'f result =
  file_name :: 'f
  max_detection_conf :: "real option"
  detections :: "detection list option"
  failure :: "string option"

text \<open>
  The TensorFlow session: given an image it returns the box, score and class tensors,
  each with a leading batch dimension, or raises.
\<close>

type_synonym 'img session =
  "'img \<Rightarrow> py_error + (tf_box list list \<times> real list list \<times> int list list)"

text \<open>\<open>TFDetector._generate_detections_one_image\<close>.\<close>

definition private_generate_detections_one_image ::
  "'img session \<Rightarrow> 'img \<Rightarrow> py_error + (tf_box list list \<times> real list list \<times> int list list)" where
  "private_generate_detections_one_image tf_session img = tf_session img"

text \<open>The body of the \<open>try\<close> block: it raises, or it ends with the loop's final state.\<close>

definition try_body ::
  "'img session \<Rightarrow> 'img \<Rightarrow> real \<Rightarrow> py_error + (detection list \<times> real \<times> int)" where
  "try_body tf_session img detection_threshold =
     (case private_generate_detections_one_image tf_session img of
        Inl e \<Rightarrow> Inl e
      | Inr (b_box, b_score, b_class) \<Rightarrow>
          (case item0 b_box of Inl e \<Rightarrow> Inl e | Inr boxes \<Rightarrow>
          (case item0 b_score of Inl e \<Rightarrow> Inl e | Inr scores \<Rightarrow>
          (case item0 b_class of Inl e \<Rightarrow> Inl e | Inr classes \<Rightarrow>
             Inr (detections_loop detection_threshold
                    (zip boxes (zip scores classes)) ([], 0, 0))))))"

text \<open>
  \<open>TFDetector.generate_detections_one_image\<close>. Every exception of the \<open>try\<close> block is
  caught: the result then carries the failure tag, and \<open>animal\<close> is what it was when
  the exception was raised. In this model the block raises only before the loop starts.
\<close>

definition generate_detections_one_image ::
  "'img session \<Rightarrow> 'img \<Rightarrow> 'f \<Rightarrow> real \<Rightarrow> 'f result \<times> int" where
  "generate_detections_one_image tf_session img image_id detection_threshold =
     (let animal = 0;
          result = \<lparr>file_name = image_id, max_detection_conf = None, detections = None,
                    failure = None\<rparr>
      in case try_body tf_session img detection_threshold of
           Inl e \<Rightarrow> (result\<lparr>failure := Some FAILURE_TF_INFER\<rparr>, animal)
         | Inr (detections_cur_image, max_detection_conf', animal') \<Rightarrow>
             (result\<lparr>max_detection_conf := Some (truncate_float max_detection_conf' CONF_DIGITS),
                     detections := Some detections_cur_image\<rparr>,
              animal'))"

subsection \<open>The main function and the server loop\<close>

text \<open>
  \<open>load_and_run_detector\<close>. The renderer of module \<open>visualization_utils\<close> is a
  parameter. \<open>result['detections']\<close> raises KeyError when the key is absent.
\<close>

definition load_and_run_detector ::
  "'img session \<Rightarrow> (detection list \<Rightarrow> 'img \<Rightarrow> (string \<times> string) list \<Rightarrow> real \<Rightarrow> 'img) \<Rightarrow> 'img
     \<Rightarrow> py_error + ('img \<times> int)" where
  "load_and_run_detector tf_session render_detection_bounding_boxes image_file =
     (let render_confidence_threshold = DEFAULT_RENDERING_CONFIDENCE_THRESHOLD;
          (result, flag) =
             generate_detections_one_image tf_session image_file image_file
               DEFAULT_OUTPUT_CONFIDENCE_THRESHOLD
      in case detections result of
           None \<Rightarrow> Inl (KeyError ''detections'')
         | Some ds \<Rightarrow>
             Inr (render_detection_bounding_boxes ds image_file DEFAULT_DETECTOR_LABEL_MAP
                    render_confidence_threshold,
                  flag))"

text \<open>
  The \<open>while True\<close> loop of server.py, run on the frames the hub delivers: each input is
  the sender's name, the frame, and the key code that \<open>cv2.waitKey\<close> returns at the end
  of that cycle. The loop has no exception handler: an exception ends it.
\<close>

datatype 'img event = SendReply | ImShow 'img | Beep nat nat

datatype outcome = AwaitFrame | Quit | Crashed py_error

fun server_loop ::
  "'img session \<Rightarrow> (detection list \<Rightarrow> 'img \<Rightarrow> (string \<times> string) list \<Rightarrow> real \<Rightarrow> 'img)
     \<Rightarrow> (string \<Rightarrow> 'img \<Rightarrow> 'img) \<Rightarrow> (string \<times> 'img \<times> int) list \<Rightarrow> 'img event list
     \<Rightarrow> 'img event list \<times> outcome" where
  "server_loop tf_session render prepare [] evs = (evs, AwaitFrame)"
| "server_loop tf_session render prepare ((rpiName, frame, waitKey) # rest) evs =
     (let evs1 = evs @ [SendReply];
          frame' = prepare rpiName frame
      in case load_and_run_detector tf_session render frame' of
           Inl e \<Rightarrow> (evs1, Crashed e)
         | Inr (res, flag) \<Rightarrow>
             let evs2 = evs1 @ [ImShow res];
                 evs3 = (if flag = 1 then evs2 @ [Beep 2500 500] else evs2);
                 key = waitKey AND 255
             in if key = 113 then (evs3, Quit)
                else server_loop tf_session render prepare rest evs3)"

text \<open>A session that answers every image with the given raw detections, as a batch of one.\<close>

definition session_returning :: "raw_detection list \<Rightarrow> 'img session" where
  "session_returning raws img =
     Inr ([map fst raws], [map (fst \<circ> snd) raws], [map (snd \<circ> snd) raws])"

text \<open>The two tests of the loop body that a raw detection must pass to be appended.\<close>

definition passes :: "real \<Rightarrow> raw_detection \<Rightarrow> bool" where
  "passes detection_threshold r =
     (case r of (b, s, c) \<Rightarrow> c \<noteq> 3 \<and> s > detection_threshold)"

text \<open>
  A session for the examples below: inference raises on frame 0 and finds one animal
  on every other frame.
\<close>

definition example_session :: "nat session" where
  "example_session frame =
     (if frame = 0 then Inl (Raised ''inference failed'')
      else Inr ([[(1 / 10, 2 / 10, 4 / 10, 5 / 10)]], [[92 / 100]], [[1]]))"

section \<open>Facts about truncation\<close>

lemma truncate_float_nonneg_eq:
  "0 \<le> x \<Longrightarrow> truncate_float x p = of_int \<lfloor>x * 10 ^ p\<rfloor> / 10 ^ p"
  by (cases "x = 0") (simp_all add: truncate_float_def)

lemma truncate_float_zero: "truncate_float 0 p = 0"
  by (simp add: truncate_float_def)

lemma truncate_float_nonneg: "0 \<le> x \<Longrightarrow> 0 \<le> truncate_float x p"
  by (simp add: truncate_float_nonneg_eq)

lemma truncate_float_neg: "truncate_float (- x) p = - truncate_float x p"
  by (simp add: truncate_float_def sgn_minus)

lemma truncate_float_mono:
  assumes "0 \<le> x" and "x \<le> y"
  shows "truncate_float x p \<le> truncate_float y p"
proof -
  have "x * 10 ^ p \<le> y * 10 ^ p"
    using assms by (simp add: mult_right_mono)
  then have "\<lfloor>x * 10 ^ p\<rfloor> \<le> \<lfloor>y * 10 ^ p\<rfloor>"
    by (rule floor_mono)
  then have "(of_int \<lfloor>x * 10 ^ p\<rfloor> :: real) / 10 ^ p \<le> of_int \<lfloor>y * 10 ^ p\<rfloor> / 10 ^ p"
    by (simp add: divide_right_mono)
  then show ?thesis
    using assms by (simp add: truncate_float_nonneg_eq)
qed

lemma truncate_float_max:
  assumes "0 \<le> x" and "0 \<le> y"
  shows "truncate_float (max x y) p = max (truncate_float x p) (truncate_float y p)"
proof (cases "x \<le> y")
  case True
  then show ?thesis
    using truncate_float_mono [OF assms(1) True, of p] by (simp add: max_def)
next
  case False
  then have "y \<le> x" by simp
  then show ?thesis
    using truncate_float_mono [OF assms(2), of x p] False by (simp add: max_def)
qed

lemma truncate_float_fold_max:
  assumes "list_all (\<lambda>s. 0 \<le> s) ss" and "0 \<le> m"
  shows "truncate_float (fold max ss m) p =
         fold max (map (\<lambda>s. truncate_float s p) ss) (truncate_float m p)"
  using assms
proof (induction ss arbitrary: m)
  case Nil
  show ?case by simp
next
  case (Cons s ss)
  then have "0 \<le> s" and rest: "list_all (\<lambda>s. 0 \<le> s) ss" by simp_all
  with Cons.prems have "0 \<le> max s m" by simp
  from Cons.IH [OF rest this] show ?case
    using \<open>0 \<le> s\<close> Cons.prems(2) by (simp add: truncate_float_max)
qed

lemma fold_max_nonneg: "0 \<le> m \<Longrightarrow> (0::real) \<le> fold max ss m"
  by (induction ss arbitrary: m) (simp_all add: max_def)

text \<open>A non-negative value loses less than one unit of the last kept decimal place.\<close>

lemma truncate_float_bounds:
  assumes "0 \<le> x"
  shows "truncate_float x p \<le> x" and "x - 1 / 10 ^ p < truncate_float x p"
proof -
  have pos: "(0::real) < 10 ^ p" by simp
  have "of_int \<lfloor>x * 10 ^ p\<rfloor> \<le> x * 10 ^ p" by simp
  then have "of_int \<lfloor>x * 10 ^ p\<rfloor> / 10 ^ p \<le> x"
    using pos by (simp add: divide_le_eq)
  then show "truncate_float x p \<le> x"
    using assms by (simp add: truncate_float_nonneg_eq)
  have "x * 10 ^ p < of_int \<lfloor>x * 10 ^ p\<rfloor> + 1" by linarith
  then have "x * 10 ^ p - 1 < of_int \<lfloor>x * 10 ^ p\<rfloor>" by simp
  then have "(x * 10 ^ p - 1) / 10 ^ p < of_int \<lfloor>x * 10 ^ p\<rfloor> / 10 ^ p"
    using pos by (simp add: divide_strict_right_mono)
  then have "x - 1 / 10 ^ p < of_int \<lfloor>x * 10 ^ p\<rfloor> / 10 ^ p"
    by (simp add: diff_divide_distrib)
  then show "x - 1 / 10 ^ p < truncate_float x p"
    using assms by (simp add: truncate_float_nonneg_eq)
qed

text \<open>Truncation moves a value toward zero, by less than one unit of the last place.\<close>

lemma truncate_float_abs:
  "\<bar>truncate_float v p\<bar> \<le> \<bar>v\<bar> \<and> \<bar>v - truncate_float v p\<bar> < 1 / 10 ^ p"
proof (cases "0 \<le> v")
  case True
  then have "0 \<le> truncate_float v p" "truncate_float v p \<le> v"
      "v - 1 / 10 ^ p < truncate_float v p"
    using truncate_float_nonneg truncate_float_bounds by simp_all
  then show ?thesis by linarith
next
  case False
  then have nn: "0 \<le> - v" by simp
  have "0 \<le> truncate_float (- v) p" "truncate_float (- v) p \<le> - v"
       "- v - 1 / 10 ^ p < truncate_float (- v) p"
    using nn truncate_float_nonneg truncate_float_bounds by simp_all
  then have "truncate_float v p \<le> 0" "v \<le> truncate_float v p"
      "truncate_float v p < v + 1 / 10 ^ p"
    by (simp_all add: truncate_float_neg)
  then show ?thesis by linarith
qed

text \<open>A truncated value is a whole number of units of the last kept place.\<close>

lemma truncate_float_grid:
  "\<exists>k::int. truncate_float v p = of_int k / 10 ^ p"
proof (cases "0 \<le> v")
  case True
  then show ?thesis
    using truncate_float_nonneg_eq by blast
next
  case False
  then have nn: "0 \<le> - v" by simp
  have "truncate_float v p = of_int (- \<lfloor>(- v) * 10 ^ p\<rfloor>) / 10 ^ p"
    using truncate_float_nonneg_eq [OF nn, of p] truncate_float_neg [of v p] by simp
  then show ?thesis by blast
qed

lemma truncate_float_cut:
  "\<exists>k::int. truncate_float v p = of_int k / 10 ^ p \<and> \<bar>of_int k / 10 ^ p\<bar> \<le> \<bar>v\<bar>
     \<and> \<bar>v - of_int k / 10 ^ p\<bar> < 1 / 10 ^ p"
  using truncate_float_grid [of v p] truncate_float_abs [of v p] by auto

section \<open>Facts about float rounding\<close>

lemma round_half_even_error: "\<bar>of_int (round_half_even y) - y\<bar> \<le> 1 / 2"
proof -
  have "of_int \<lfloor>y\<rfloor> \<le> y" "y < of_int \<lfloor>y\<rfloor> + 1" by linarith+
  then show ?thesis
    by (auto simp: round_half_even_def Let_def)
qed

lemma bit_length_nonpos: "n \<le> 0 \<Longrightarrow> bit_length n = 0"
  by (subst bit_length.simps) simp

lemma bit_length_eqI:
  "2 ^ L \<le> n \<Longrightarrow> n < 2 ^ Suc L \<Longrightarrow> bit_length n = Suc L"
proof (induction L arbitrary: n)
  case 0
  then have "n = 1" by simp
  then show ?case
    by (subst bit_length.simps) (simp add: bit_length_nonpos)
next
  case (Suc L)
  have "(0::int) < 2 ^ Suc L" by simp
  with Suc.prems(1) have pos: "0 < n" by linarith
  have "2 ^ L \<le> n div 2" "n div 2 < 2 ^ Suc L"
    using Suc.prems by simp_all
  then have "bit_length (n div 2) = Suc L"
    by (rule Suc.IH)
  with pos show ?case
    by (subst bit_length.simps) simp
qed

lemma bit_length_lower: "0 < n \<Longrightarrow> 2 ^ (bit_length n - 1) \<le> n"
proof (induction n rule: bit_length.induct)
  case (1 n)
  show ?case
  proof (cases "n div 2 \<le> 0")
    case True
    then have "bit_length (n div 2) = 0" by (rule bit_length_nonpos)
    with "1.prems" show ?thesis
      by (subst bit_length.simps) simp
  next
    case False
    then have pos: "0 < n div 2" by simp
    have ih: "2 ^ (bit_length (n div 2) - 1) \<le> n div 2"
      using "1.IH" "1.prems" pos by simp
    have "0 < bit_length (n div 2)"
      using pos by (subst bit_length.simps) simp
    then have "2 ^ bit_length (n div 2) = (2::int) * 2 ^ (bit_length (n div 2) - 1)"
      by (cases "bit_length (n div 2)") simp_all
    also have "\<dots> \<le> 2 * (n div 2)" using ih by simp
    also have "\<dots> \<le> n" by simp
    finally show ?thesis
      using "1.prems" by (subst bit_length.simps) simp
  qed
qed

text \<open>The rounded value, once the binade of the argument is known.\<close>

lemma float_round_eval:
  assumes "2 ^ L \<le> \<lfloor>\<bar>x\<bar> * 2 ^ m\<rfloor>" and "\<lfloor>\<bar>x\<bar> * 2 ^ m\<rfloor> < 2 ^ Suc L"
  shows "float_round p m x =
     sgn x * of_int (round_half_even (\<bar>x\<bar> / (2 ^ (Suc L - p) / 2 ^ m))) * (2 ^ (Suc L - p) / 2 ^ m)"
  using bit_length_eqI [OF assms] by (simp add: float_round_def Let_def)

text \<open>
  In the normal range, for \<open>2 ^ - j \<le> \<bar>x\<bar> < 2 ^ (1 - j)\<close>: \<open>x\<close> is rounded to a
  multiple of \<open>2 ^ - (j + p - 1)\<close>.
\<close>

lemma float_round_normal:
  assumes lo: "1 / 2 ^ j \<le> \<bar>x\<bar>" and hi: "\<bar>x\<bar> < 2 / 2 ^ j" and jm: "j + p \<le> Suc m"
    and p: "0 < p"
  shows "float_round p m x =
     sgn x * of_int (round_half_even (\<bar>x\<bar> * 2 ^ (j + p - 1))) / 2 ^ (j + p - 1)"
proof -
  have jm': "j \<le> m" using jm p by simp
  have split: "(2::real) ^ m = 2 ^ (m - j) * 2 ^ j"
    using jm' by (simp flip: power_add)
  have "(2::real) ^ (m - j) \<le> \<bar>x\<bar> * 2 ^ m"
    using lo unfolding split by (simp add: field_simps)
  then have "of_int (2 ^ (m - j)) \<le> \<bar>x\<bar> * 2 ^ m" by simp
  then have l: "2 ^ (m - j) \<le> \<lfloor>\<bar>x\<bar> * 2 ^ m\<rfloor>"
    by (simp only: le_floor_iff)
  have "\<bar>x\<bar> * 2 ^ m < 2 ^ Suc (m - j)"
    using hi unfolding split by (simp add: field_simps)
  then have "\<bar>x\<bar> * 2 ^ m < of_int (2 ^ Suc (m - j))" by simp
  then have h: "\<lfloor>\<bar>x\<bar> * 2 ^ m\<rfloor> < 2 ^ Suc (m - j)"
    by (simp only: floor_less_iff)
  have expo: "Suc (m - j) - p + (j + p - 1) = m"
    using jm p by simp
  have "(2::real) ^ m = 2 ^ (Suc (m - j) - p) * 2 ^ (j + p - 1)"
    by (simp only: expo flip: power_add)
  then have q: "(2::real) ^ (Suc (m - j) - p) / 2 ^ m = 1 / 2 ^ (j + p - 1)"
    by (simp add: field_simps)
  show ?thesis
    by (simp add: float_round_eval [OF l h] q)
qed

lemma float_round_zero: "float_round p m 0 = 0"
  by (simp add: float_round_def Let_def)

text \<open>
  The error of rounding: half a unit in the last place, that is a relative error of
  \<open>2 ^ - p\<close>, or half the smallest positive value in the subnormal range.
\<close>

lemma float_round_error:
  assumes p: "0 < p"
  shows "\<bar>float_round p m x - x\<bar> \<le> \<bar>x\<bar> / 2 ^ p + 1 / 2 ^ Suc m"
proof -
  define n where "n = \<lfloor>\<bar>x\<bar> * 2 ^ m\<rfloor>"
  define k where "k = bit_length n - p"
  define q :: real where "q = 2 ^ k / 2 ^ m"
  define r where "r = round_half_even (\<bar>x\<bar> / q)"
  have q0: "0 < q" by (simp add: q_def)
  have fr: "float_round p m x = sgn x * of_int r * q"
    by (simp add: float_round_def Let_def n_def k_def q_def r_def)
  have "\<bar>of_int r - \<bar>x\<bar> / q\<bar> \<le> 1 / 2"
    unfolding r_def by (rule round_half_even_error)
  then have "\<bar>of_int r - \<bar>x\<bar> / q\<bar> * q \<le> 1 / 2 * q"
    using q0 by (simp only: mult_le_cancel_right_pos)
  moreover have "\<bar>of_int r - \<bar>x\<bar> / q\<bar> * q = \<bar>of_int r * q - \<bar>x\<bar>\<bar>"
    using q0 by (simp add: abs_mult_pos' [symmetric] abs_mult field_simps)
  ultimately have e1: "\<bar>of_int r * q - \<bar>x\<bar>\<bar> \<le> q / 2" by simp
  have e2: "\<bar>float_round p m x - x\<bar> = \<bar>of_int r * q - \<bar>x\<bar>\<bar>"
  proof (cases "x = 0")
    case True
    have "r = 0" by (simp add: r_def True round_half_even_def)
    then have "float_round p m x = 0" by (simp add: fr)
    then show ?thesis using \<open>r = 0\<close> True by simp
  next
    case False
    have "sgn x * of_int r * q - x = sgn x * (of_int r * q - \<bar>x\<bar>)"
      using False by (simp add: algebra_simps sgn_real_def abs_if)
    then have "\<bar>float_round p m x - x\<bar> = \<bar>sgn x\<bar> * \<bar>of_int r * q - \<bar>x\<bar>\<bar>"
      by (simp only: fr abs_mult)
    then show ?thesis using False by (simp add: sgn_real_def)
  qed
  have qb: "q \<le> \<bar>x\<bar> / 2 ^ (p - 1) + 1 / 2 ^ m"
  proof (cases "k = 0")
    case True
    then show ?thesis by (simp add: q_def)
  next
    case False
    then have bl: "bit_length n = k + p" and blpos: "0 < bit_length n"
      by (simp_all add: k_def)
    have npos: "0 < n"
    proof (rule ccontr)
      assume "\<not> 0 < n"
      then have "bit_length n = 0" by (simp add: bit_length_nonpos)
      with blpos show False by simp
    qed
    have "2 ^ (k + p - 1) \<le> n"
      using bit_length_lower [OF npos] by (simp add: bl)
    then have "(2::real) ^ (k + p - 1) \<le> of_int n"
      by (metis of_int_le_iff of_int_numeral of_int_power)
    also have "of_int n \<le> \<bar>x\<bar> * 2 ^ m"
      by (simp add: n_def)
    finally have "(2::real) ^ (k + p - 1) \<le> \<bar>x\<bar> * 2 ^ m" .
    moreover have "(2::real) ^ (k + p - 1) = 2 ^ k * 2 ^ (p - 1)"
      using p by (simp flip: power_add)
    ultimately have "(2::real) ^ k * 2 ^ (p - 1) \<le> \<bar>x\<bar> * 2 ^ m" by simp
    then have "q \<le> \<bar>x\<bar> / 2 ^ (p - 1)"
      by (simp add: q_def field_simps)
    moreover have "(0::real) \<le> 1 / 2 ^ m" by simp
    ultimately show ?thesis by linarith
  qed
  have "(2::real) ^ p = 2 * 2 ^ (p - 1)"
    using p by (cases p) simp_all
  then have half: "(\<bar>x\<bar> / 2 ^ (p - 1) + 1 / 2 ^ m) / 2 = \<bar>x\<bar> / 2 ^ p + 1 / 2 ^ Suc m"
    by (simp add: field_simps)
  have "q / 2 \<le> (\<bar>x\<bar> / 2 ^ (p - 1) + 1 / 2 ^ m) / 2"
    using qb by (simp add: divide_right_mono)
  then have "q / 2 \<le> \<bar>x\<bar> / 2 ^ p + 1 / 2 ^ Suc m"
    by (simp only: half)
  with e1 have "\<bar>of_int r * q - \<bar>x\<bar>\<bar> \<le> \<bar>x\<bar> / 2 ^ p + 1 / 2 ^ Suc m"
    by (rule order_trans)
  then show ?thesis by (simp only: e2)
qed

lemma float32_error: "\<bar>float32 x - x\<bar> \<le> \<bar>x\<bar> / 2 ^ 24 + 1 / 2 ^ 150"
  using float_round_error [where p = 24 and m = 149 and x = x] by (simp add: float32_def)

lemma float64_error: "\<bar>float64 x - x\<bar> \<le> \<bar>x\<bar> / 2 ^ 53 + 1 / 2 ^ 1075"
  using float_round_error [where p = 53 and m = 1074 and x = x] by (simp add: float64_def)

lemma float32_error_unit:
  assumes "\<bar>x\<bar> \<le> 1"
  shows "\<bar>float32 x - x\<bar> \<le> 1 / 2 ^ 24 + 1 / 2 ^ 60"
proof -
  have "\<bar>x\<bar> / 2 ^ 24 \<le> 1 / 2 ^ 24"
    using assms by (simp add: divide_right_mono)
  moreover have "(1::real) / 2 ^ 150 \<le> 1 / 2 ^ 60"
    by (simp add: field_simps)
  ultimately show ?thesis
    using float32_error [of x] by linarith
qed

lemma float64_error_small:
  assumes "\<bar>x\<bar> \<le> 4"
  shows "\<bar>float64 x - x\<bar> \<le> 1 / 2 ^ 50"
proof -
  have "\<bar>x\<bar> / 2 ^ 53 \<le> 4 / 2 ^ 53"
    using assms by (simp add: divide_right_mono)
  moreover have "(4::real) / 2 ^ 53 + 1 / 2 ^ 1075 \<le> 1 / 2 ^ 50"
    by (simp add: field_simps)
  ultimately show ?thesis
    using float64_error [of x] by linarith
qed

text \<open>
  Evaluation rules for the examples: zero, the binades between \<open>1 / 8\<close> and 2,
  and the two around \<open>1 / 10000\<close>.
\<close>

lemmas float32_binade =
  float_round_zero [of 24 149, folded float32_def]
  float_round_normal [of 0 _ 24 149, folded float32_def]
  float_round_normal [of 1 _ 24 149, folded float32_def]
  float_round_normal [of 2 _ 24 149, folded float32_def]
  float_round_normal [of 3 _ 24 149, folded float32_def]
  float_round_normal [of 13 _ 24 149, folded float32_def]

lemmas float64_binade =
  float_round_zero [of 53 1074, folded float64_def]
  float_round_normal [of 0 _ 53 1074, folded float64_def]
  float_round_normal [of 1 _ 53 1074, folded float64_def]
  float_round_normal [of 2 _ 53 1074, folded float64_def]
  float_round_normal [of 3 _ 53 1074, folded float64_def]
  float_round_normal [of 13 _ 53 1074, folded float64_def]
  float_round_normal [of 14 _ 53 1074, folded float64_def]

section \<open>The coordinate normalizer\<close>

lemma round_half_even_nonneg: "0 \<le> y \<Longrightarrow> 0 \<le> round_half_even y"
proof -
  assume "0 \<le> y"
  then have "0 \<le> \<lfloor>y\<rfloor>" by simp
  then show ?thesis
    by (auto simp: round_half_even_def Let_def)
qed

lemma float_round_nonneg: "0 \<le> x \<Longrightarrow> 0 \<le> float_round p m x"
  by (simp add: float_round_def Let_def sgn_real_def round_half_even_nonneg)

lemma convert_coords_eq:
  "convert_coords (y1, x1, y2, x2) =
     [truncate_float x1 4, truncate_float y1 4,
      truncate_float (float32 (x2 - x1)) 4, truncate_float (float32 (y2 - y1)) 4]"
  by (simp add: round_and_make_float_def COORD_DIGITS_def)

lemma roundtrip_eq:
  "convert_to_tf_coords (convert_coords (y1, x1, y2, x2)) =
     Inr [float64 (truncate_float y1 4), float64 (truncate_float x1 4),
          float64 (float64 (truncate_float y1 4)
                   + float64 (truncate_float (float32 (y2 - y1)) 4)),
          float64 (float64 (truncate_float x1 4)
                   + float64 (truncate_float (float32 (x2 - x1)) 4))]"
  by (simp add: round_and_make_float_def COORD_DIGITS_def convert_to_tf_coords_def Let_def)

text \<open>
  C8. For every input box \<open>[y1, x1, y2, x2]\<close> the normalizer returns four values, in this
  order: \<open>x1\<close>, \<open>y1\<close>, the width \<open>x2 - x1\<close> and the height \<open>y2 - y1\<close> as the binary32
  subtraction yields them, each cut to four decimal digits. Every component of the
  output is a whole number of ten-thousandths, is no larger in absolute value than the
  value it comes from (so it is never rounded up) and differs from it by less than one
  ten-thousandth; the computed width and height are the exact differences up to a
  relative error of \<open>2 ^ - 24\<close>. Nothing is clamped: the statement holds for all
  reals, also for a negative width or a coordinate outside \<open>[0, 1]\<close>.
\<close>

theorem convert_coords_truncates:
  "\<exists>k1 k2 k3 k4 :: int.
     convert_coords (y1, x1, y2, x2) =
       [of_int k1 / 10 ^ 4, of_int k2 / 10 ^ 4, of_int k3 / 10 ^ 4, of_int k4 / 10 ^ 4]
     \<and> \<bar>of_int k1 / 10 ^ 4\<bar> \<le> \<bar>x1\<bar> \<and> \<bar>x1 - of_int k1 / 10 ^ 4\<bar> < 1 / 10 ^ 4
     \<and> \<bar>of_int k2 / 10 ^ 4\<bar> \<le> \<bar>y1\<bar> \<and> \<bar>y1 - of_int k2 / 10 ^ 4\<bar> < 1 / 10 ^ 4
     \<and> \<bar>of_int k3 / 10 ^ 4\<bar> \<le> \<bar>float32 (x2 - x1)\<bar>
     \<and> \<bar>float32 (x2 - x1) - of_int k3 / 10 ^ 4\<bar> < 1 / 10 ^ 4
     \<and> \<bar>of_int k4 / 10 ^ 4\<bar> \<le> \<bar>float32 (y2 - y1)\<bar>
     \<and> \<bar>float32 (y2 - y1) - of_int k4 / 10 ^ 4\<bar> < 1 / 10 ^ 4
     \<and> \<bar>float32 (x2 - x1) - (x2 - x1)\<bar> \<le> \<bar>x2 - x1\<bar> / 2 ^ 24 + 1 / 2 ^ 150
     \<and> \<bar>float32 (y2 - y1) - (y2 - y1)\<bar> \<le> \<bar>y2 - y1\<bar> / 2 ^ 24 + 1 / 2 ^ 150"
proof -
  let ?w = "float32 (x2 - x1)" and ?h = "float32 (y2 - y1)"
  obtain k1 :: int where k1: "truncate_float x1 4 = of_int k1 / 10 ^ 4"
      "\<bar>of_int k1 / 10 ^ 4\<bar> \<le> \<bar>x1\<bar>" "\<bar>x1 - of_int k1 / 10 ^ 4\<bar> < 1 / 10 ^ 4"
    using truncate_float_cut [of x1 4] by blast
  obtain k2 :: int where k2: "truncate_float y1 4 = of_int k2 / 10 ^ 4"
      "\<bar>of_int k2 / 10 ^ 4\<bar> \<le> \<bar>y1\<bar>" "\<bar>y1 - of_int k2 / 10 ^ 4\<bar> < 1 / 10 ^ 4"
    using truncate_float_cut [of y1 4] by blast
  obtain k3 :: int where k3: "truncate_float ?w 4 = of_int k3 / 10 ^ 4"
      "\<bar>of_int k3 / 10 ^ 4\<bar> \<le> \<bar>?w\<bar>" "\<bar>?w - of_int k3 / 10 ^ 4\<bar> < 1 / 10 ^ 4"
    using truncate_float_cut [of ?w 4] by blast
  obtain k4 :: int where k4: "truncate_float ?h 4 = of_int k4 / 10 ^ 4"
      "\<bar>of_int k4 / 10 ^ 4\<bar> \<le> \<bar>?h\<bar>" "\<bar>?h - of_int k4 / 10 ^ 4\<bar> < 1 / 10 ^ 4"
    using truncate_float_cut [of ?h 4] by blast
  have "convert_coords (y1, x1, y2, x2) =
       [of_int k1 / 10 ^ 4, of_int k2 / 10 ^ 4, of_int k3 / 10 ^ 4, of_int k4 / 10 ^ 4]"
    by (simp only: convert_coords_eq k1(1) k2(1) k3(1) k4(1))
  with k1(2,3) k2(2,3) k3(2,3) k4(2,3)
    float32_error [of "x2 - x1"] float32_error [of "y2 - y1"]
  show ?thesis by blast
qed

text \<open>
  Runs of the normalizer: a negative width; coordinates outside \<open>[0, 1]\<close>; digits beyond
  the fourth place that rounding would carry upward; and the binary32 box
  \<open>[0, 0.2, 1, 0.5]\<close>, whose second entry is the binary32 value of 0.2, where the
  binary32 width is just above 0.3 and is cut to 0.3.
\<close>

lemma convert_coords_examples:
  "convert_coords (0, 5 / 10, 1, 2 / 10) = [5 / 10, 0, - (3 / 10), 1]"
  "convert_coords (- (1 / 4), 3 / 2, 1 / 2, 3) = [3 / 2, - (1 / 4), 3 / 2, 3 / 4]"
  "convert_coords (12346 / 100000, 0, 1, 99999 / 100000) =
     [0, 1234 / 10000, 9999 / 10000, 8765 / 10000]"
  "convert_coords (0, 13421773 / 67108864, 1, 1 / 2) = [2 / 10, 0, 3 / 10, 1]"
  by (simp_all add: round_and_make_float_def COORD_DIGITS_def truncate_float_def
      float32_binade round_half_even_def Let_def)

text \<open>
  C7, as the claim states it, with the tolerance of one unit of the fourth decimal
  place: it fails. The box \<open>[0, 0.00019, 0.5, 0.00038]\<close> lies in the unit square with
  \<open>y1 < y2\<close> and \<open>x1 < x2\<close>; its corner \<open>x1\<close> and its width are both cut to 0.0001, so
  the round trip returns for \<open>x2\<close> the binary64 value of 0.0002, which is
  \<open>7378697629483821 / 2 ^ 65\<close> and is 0.00018 away from 0.00038.
\<close>

theorem roundtrip_one_unit_counterexample:
  "(0 :: real) \<le> 0 \<and> (0 :: real) < 1 / 2 \<and> (1 / 2 :: real) \<le> 1
   \<and> (0 :: real) \<le> 19 / 100000 \<and> (19 / 100000 :: real) < 38 / 100000
   \<and> (38 / 100000 :: real) \<le> 1
   \<and> convert_to_tf_coords (convert_coords (0, 19 / 100000, 1 / 2, 38 / 100000)) =
       Inr [0, 7378697629483821 / 2 ^ 66, 1 / 2, 7378697629483821 / 2 ^ 65]
   \<and> \<not> \<bar>38 / 100000 - 7378697629483821 / 2 ^ 65\<bar> \<le> (1 / 10 ^ 4 :: real)"
  by (simp add: round_and_make_float_def COORD_DIGITS_def truncate_float_def
      convert_to_tf_coords_def float32_binade float64_binade round_half_even_def Let_def)

text \<open>
  C7, amended. For every box \<open>[y1, x1, y2, x2]\<close> in the unit square with \<open>y1 < y2\<close> and
  \<open>x1 < x2\<close>, converting to \<open>[x1, y1, width, height]\<close> and back succeeds; \<open>y1\<close> and \<open>x1\<close>
  come back within one ten-thousandth of the original, \<open>y2\<close> and \<open>x2\<close> within two
  ten-thousandths (the truncations of the corner and of the extent add up), in each
  case up to the rounding of the float arithmetic: less than \<open>2 ^ - 50\<close> for \<open>y1\<close> and
  \<open>x1\<close>, less than \<open>2 ^ - 23\<close> for \<open>y2\<close> and \<open>x2\<close>.
\<close>

theorem roundtrip_within_two_units:
  assumes "0 \<le> y1" "y1 < y2" "y2 \<le> 1" "0 \<le> x1" "x1 < x2" "x2 \<le> 1"
  shows "\<exists>y1' x1' y2' x2'.
           convert_to_tf_coords (convert_coords (y1, x1, y2, x2)) = Inr [y1', x1', y2', x2']
           \<and> \<bar>y1' - y1\<bar> < 1 / 10 ^ 4 + 1 / 2 ^ 50
           \<and> \<bar>x1' - x1\<bar> < 1 / 10 ^ 4 + 1 / 2 ^ 50
           \<and> \<bar>y2' - y2\<bar> < 2 / 10 ^ 4 + 1 / 2 ^ 23
           \<and> \<bar>x2' - x2\<bar> < 2 / 10 ^ 4 + 1 / 2 ^ 23"
proof -
  have leg: "\<bar>float64 (truncate_float a 4) - a\<bar> < 1 / 10 ^ 4 + 1 / 2 ^ 50
      \<and> \<bar>float64 (float64 (truncate_float a 4) + float64 (truncate_float (float32 (b - a)) 4)) - b\<bar>
          < 2 / 10 ^ 4 + 1 / 2 ^ 23"
    if a: "0 \<le> a" and ab: "a < b" and b: "b \<le> 1" for a b :: real
  proof -
    let ?t = "truncate_float a 4"
    let ?d = "float32 (b - a)"
    let ?u = "truncate_float ?d 4"
    let ?s = "float64 ?t + float64 ?u"
    define tick :: real where "tick = 1 / 10 ^ 4"
    define e :: real where "e = 1 / 2 ^ 50"
    define g :: real where "g = 1 / 2 ^ 24 + 1 / 2 ^ 60"
    define slack :: real where "slack = 1 / 2 ^ 23"
    have rel: "0 < e" "g + 3 * e < slack" "0 < tick" "tick < 1" "g < 1" "e < 1"
      by (simp_all add: e_def g_def tick_def slack_def)
    have t: "?t \<le> a" "a - tick < ?t" "0 \<le> ?t"
      using truncate_float_bounds [OF a, of 4] truncate_float_nonneg [OF a, of 4]
      by (simp_all add: tick_def)
    have "\<bar>b - a\<bar> \<le> 1" using a ab b by simp
    from float32_error_unit [OF this]
    have d: "?d \<le> b - a + g" "b - a \<le> ?d + g"
      unfolding g_def by linarith+
    have d0: "0 \<le> ?d"
      unfolding float32_def using ab by (intro float_round_nonneg) simp
    have u: "?u \<le> ?d" "?d - tick < ?u" "0 \<le> ?u"
      using truncate_float_bounds [OF d0, of 4] truncate_float_nonneg [OF d0, of 4]
      by (simp_all add: tick_def)
    have "\<bar>?t\<bar> \<le> 4" using t a b ab by linarith
    from float64_error_small [OF this]
    have ft: "float64 ?t \<le> ?t + e" "?t \<le> float64 ?t + e"
      unfolding e_def by linarith+
    have "\<bar>?u\<bar> \<le> 4" using u d a b ab rel by linarith
    from float64_error_small [OF this]
    have fu: "float64 ?u \<le> ?u + e" "?u \<le> float64 ?u + e"
      unfolding e_def by linarith+
    have "\<bar>?s\<bar> \<le> 4" using ft fu t u d a b ab rel by linarith
    from float64_error_small [OF this]
    have fs: "float64 ?s \<le> ?s + e" "?s \<le> float64 ?s + e"
      unfolding e_def by linarith+
    have one: "\<bar>float64 ?t - a\<bar> < tick + e"
      using t ft rel by linarith
    have two: "\<bar>float64 ?s - b\<bar> < 2 * tick + slack"
      using t d u ft fu fs rel by linarith
    from one two show ?thesis
      by (simp add: tick_def e_def slack_def)
  qed
  from leg [OF assms(1,2,3)] leg [OF assms(4,5,6)] roundtrip_eq [of y1 x1 y2 x2]
  show ?thesis by blast
qed

text \<open>
  The amended round trip at the box \<open>[0.38035, 0.66265, 0.89838, 0.84172]\<close>: every
  component is cut, \<open>y2\<close> comes back as the binary64 sum \<open>0.3803 + 0.518\<close>, which is
  \<open>0.8983000000000001\<close>, and \<open>x2\<close> comes back more than one ten-thousandth below the
  original.
\<close>

theorem roundtrip_within_two_units_witness:
  "(0 :: real) \<le> 38035 / 100000 \<and> (38035 / 100000 :: real) < 89838 / 100000
   \<and> (89838 / 100000 :: real) \<le> 1
   \<and> (0 :: real) \<le> 66265 / 100000 \<and> (66265 / 100000 :: real) < 84172 / 100000
   \<and> (84172 / 100000 :: real) \<le> 1
   \<and> convert_to_tf_coords
        (convert_coords (38035 / 100000, 66265 / 100000, 89838 / 100000, 84172 / 100000)) =
       Inr [6850875753155999 / 2 ^ 54, 5968170226191381 / 2 ^ 53,
            4045583545266917 / 2 ^ 52, 3790229446395009 / 2 ^ 52]
   \<and> \<bar>3790229446395009 / 2 ^ 52 - 84172 / 100000\<bar> < (2 / 10 ^ 4 + 1 / 2 ^ 23 :: real)
   \<and> (1 / 10 ^ 4 :: real) < 84172 / 100000 - 3790229446395009 / 2 ^ 52"
proof -
  have ev: "convert_to_tf_coords
        (convert_coords (38035 / 100000, 66265 / 100000, 89838 / 100000, 84172 / 100000)) =
       Inr [6850875753155999 / 2 ^ 54, 5968170226191381 / 2 ^ 53,
            4045583545266917 / 2 ^ 52, 3790229446395009 / 2 ^ 52]"
    by (simp add: round_and_make_float_def COORD_DIGITS_def truncate_float_def
        convert_to_tf_coords_def float32_binade float64_binade round_half_even_def Let_def)
  from roundtrip_within_two_units
         [of "38035 / 100000" "89838 / 100000" "66265 / 100000" "84172 / 100000"]
  obtain y1' x1' y2' x2' where r: "convert_to_tf_coords
        (convert_coords (38035 / 100000, 66265 / 100000, 89838 / 100000, 84172 / 100000)) =
        Inr [y1', x1', y2', x2']"
    and b: "\<bar>x2' - 84172 / 100000\<bar> < 2 / 10 ^ 4 + 1 / 2 ^ 23"
    by auto
  from r ev have "x2' = 3790229446395009 / 2 ^ 52" by simp
  with b have "\<bar>3790229446395009 / 2 ^ 52 - 84172 / 100000\<bar> < (2 / 10 ^ 4 + 1 / 2 ^ 23 :: real)"
    by simp
  with ev show ?thesis by simp
qed

section \<open>The detection filter\<close>

text \<open>The category strings of the three classes of the label map.\<close>

lemma str_int_small: "str_int 1 = ''1''" "str_int 2 = ''2''" "str_int 3 = ''3''"
  by code_simp+

text \<open>The loop in closed form: what it appends, the maximum it keeps, and the flag.\<close>

lemma detections_loop_char:
  "detections_loop thr raws (ds, mx, a) =
     (ds @ map detection_entry (filter (passes thr) raws),
      fold max (map (fst \<circ> snd) (filter (passes thr) raws)) mx,
      if 1 \<in> set (map (snd \<circ> snd) raws) then 1 else a)"
proof (induction raws arbitrary: ds mx a)
  case Nil
  show ?case by simp
next
  case (Cons r raws)
  obtain b s c where r: "r = (b, s, c)" by (cases r)
  show ?case
    unfolding r by (simp add: Cons.IH passes_def max_def)
qed

lemma zip_unzip_raws:
  "zip (map fst raws) (zip (map (fst \<circ> snd) raws) (map (snd \<circ> snd) raws)) = raws"
  by (induction raws) auto

lemma generate_char:
  "generate_detections_one_image (session_returning raws) img image_id thr =
     (\<lparr>file_name = image_id,
       max_detection_conf =
         Some (truncate_float (fold max (map (fst \<circ> snd) (filter (passes thr) raws)) 0)
                 CONF_DIGITS),
       detections = Some (map detection_entry (filter (passes thr) raws)),
       failure = None\<rparr>,
      if 1 \<in> set (map (snd \<circ> snd) raws) then 1 else 0)"
  by (simp add: generate_detections_one_image_def try_body_def
      private_generate_detections_one_image_def session_returning_def
      zip_unzip_raws detections_loop_char)

text \<open>
  C3. Take any raw detection \<open>(b, s, c)\<close> of a class other than 3, anywhere in the
  sequence of raw detections. The detections list of the whole sequence is the list for
  the detections before it, then the entry of \<open>(b, s, c)\<close> exactly when \<open>s\<close> is
  strictly greater than the threshold, then the list for the detections after it. So a
  confidence equal to the threshold is left out and any larger one is kept.
\<close>

theorem threshold_is_strict:
  assumes "c \<noteq> 3"
  shows "\<exists>ds1 ds2.
     detections (fst (generate_detections_one_image (session_returning before) img image_id thr))
       = Some ds1
   \<and> detections (fst (generate_detections_one_image (session_returning after) img image_id thr))
       = Some ds2
   \<and> detections (fst (generate_detections_one_image
        (session_returning (before @ (b, s, c) # after)) img image_id thr))
       = Some (ds1 @ (if s > thr then [detection_entry (b, s, c)] else []) @ ds2)"
  using assms by (simp add: generate_char passes_def)

text \<open>
  At the threshold 0.1: a class-1 detection of confidence exactly 0.1 is left out, a
  class-2 detection of confidence 0.1001 after it is kept.
\<close>

theorem threshold_is_strict_witness:
  "(1 :: int) \<noteq> 3
   \<and> detections (fst (generate_detections_one_image
        (session_returning [((0, 0, 1, 1), 1 / 10, 1), ((0, 0, 1, 1), 1001 / 10000, 2)])
        (0 :: nat) ''id'' (1 / 10))) =
       Some [detection_entry ((0, 0, 1, 1), 1001 / 10000, 2)]
   \<and> detections (fst (generate_detections_one_image
        (session_returning [((0, 0, 1, 1), 1 / 10, 1)]) (0 :: nat) ''id'' (1 / 10))) = Some []"
  using threshold_is_strict [of 1 "[]" "0 :: nat" "''id''" "1 / 10"
            "[((0, 0, 1, 1), 1001 / 10000, 2)]" "(0, 0, 1, 1)" "1 / 10"]
        threshold_is_strict [of 1 "[]" "0 :: nat" "''id''" "1 / 10" "[]" "(0, 0, 1, 1)" "1 / 10"]
  by (simp add: generate_char passes_def)

text \<open>
  C4. For every sequence of raw detections and every threshold, the animal flag that
  \<open>generate_detections_one_image\<close> returns is 1 if some raw detection has class 1 and 0
  otherwise; the threshold and the scores play no part in it.
\<close>

theorem animal_flag_ignores_threshold:
  "snd (generate_detections_one_image (session_returning raws) img image_id thr) =
     (if 1 \<in> set (map (snd \<circ> snd) raws) then 1 else 0)"
  by (simp add: generate_char)

text \<open>A class-1 detection below the threshold: no detection is listed, the flag is 1.\<close>

lemma animal_flag_below_threshold_example:
  "generate_detections_one_image (session_returning [((0, 0, 1, 1), 5 / 100, 1)])
     (0 :: nat) ''id'' (1 / 10) =
   (\<lparr>file_name = ''id'', max_detection_conf = Some 0, detections = Some [], failure = None\<rparr>, 1)"
  by (simp add: generate_char passes_def detection_entry_def str_int_small
      truncate_float_def CONF_DIGITS_def COORD_DIGITS_def round_and_make_float_def
      float32_binade round_half_even_def Let_def)

text \<open>The decimal string "3" is printed for the integer 3 only.\<close>

lemma digits_nonempty: "digits n \<noteq> []"
  by (subst digits.simps) simp

lemma digit_char_3:
  assumes "d < 10" and "digit_char d = CHR ''3''"
  shows "d = 3"
proof -
  have "of_char (char_of (48 + d) :: char) = (of_char (CHR ''3'') :: nat)"
    using assms(2) by (simp add: digit_char_def)
  then have "(48 + d) mod 256 = 51" by (simp add: of_char_of)
  with assms(1) show "d = 3" by simp
qed

lemma str_int_3:
  assumes "str_int c = ''3''"
  shows "c = 3"
proof -
  have nn: "\<not> c < 0"
    using assms by (auto simp: str_int_def)
  then have dg: "digits (nat c) = ''3''"
    using assms by (simp add: str_int_def)
  have small: "nat c < 10"
  proof (rule ccontr)
    assume "\<not> nat c < 10"
    then have "digits (nat c) = digits (nat c div 10) @ [digit_char (nat c mod 10)]"
      by (subst digits.simps) simp
    with dg have "digits (nat c div 10) = []" by simp
    then show False by (simp add: digits_nonempty)
  qed
  then have "digits (nat c) = [digit_char (nat c)]"
    by (subst digits.simps) simp
  with dg have "digit_char (nat c) = CHR ''3''" by simp
  from digit_char_3 [OF small this] nn show "c = 3" by simp
qed

lemma no_vehicle_category:
  "''3'' \<notin> category ` set (map detection_entry (filter (passes thr) raws))"
  by (auto simp: passes_def detection_entry_def dest: str_int_3 [OF sym])

lemma passes_not_excluded:
  "((case r of (b, s, c) \<Rightarrow> c \<noteq> 3) \<and> passes thr r) = passes thr r"
  by (cases r) (auto simp: passes_def)

lemma animal_class_not_excluded:
  "(1::int) \<in> (snd \<circ> snd) ` {r \<in> set raws. case r of (b, s, c) \<Rightarrow> c \<noteq> 3}
     \<longleftrightarrow> 1 \<in> (snd \<circ> snd) ` set raws"
  by force

text \<open>
  C5. For every sequence of raw detections and every threshold, deleting the class-3
  detections from the input changes nothing of what is returned: the detections list,
  the maximal confidence (and the flag) are those of the input without them, whatever
  their scores. Moreover no detection in the returned list has the category "3".
\<close>

theorem excluded_class_never_contributes:
  "generate_detections_one_image (session_returning raws) img image_id thr =
   generate_detections_one_image
     (session_returning (filter (\<lambda>(b, s, c). c \<noteq> 3) raws)) img image_id thr
   \<and> (\<exists>ds. detections (fst (generate_detections_one_image (session_returning raws)
               img image_id thr)) = Some ds
         \<and> ''3'' \<notin> category ` set ds)"
proof -
  have "generate_detections_one_image (session_returning raws) img image_id thr =
      generate_detections_one_image
        (session_returning (filter (\<lambda>(b, s, c). c \<noteq> 3) raws)) img image_id thr"
    using animal_class_not_excluded [of raws]
    by (simp add: generate_char passes_not_excluded)
  moreover have "detections (fst (generate_detections_one_image (session_returning raws)
               img image_id thr)) = Some (map detection_entry (filter (passes thr) raws))"
    by (simp add: generate_char)
  ultimately show ?thesis
    using no_vehicle_category [of thr raws] by blast
qed

text \<open>
  C9. The detections list of a successful result is the image, entry by entry, of a
  subsequence of the raw detections: the kept detections are in the order in which
  the backend produced them.
\<close>

theorem detections_are_subsequence:
  "\<exists>kept. subseq kept raws \<and>
     detections (fst (generate_detections_one_image (session_returning raws) img image_id thr)) =
       Some (map detection_entry kept)"
  by (rule exI [of _ "filter (passes thr) raws"]) (simp add: generate_char)

section \<open>The maximal confidence\<close>

lemma Max_conf_kept:
  assumes "list_all (\<lambda>r. 0 \<le> fst (snd r)) kept" and "kept \<noteq> []"
  shows "truncate_float (fold max (map (fst \<circ> snd) kept) 0) CONF_DIGITS =
         Max (conf ` set (map detection_entry kept))"
proof -
  obtain k ks where kept: "kept = k # ks"
    using assms(2) by (cases kept) auto
  have k0: "0 \<le> fst (snd k)" and ks0: "list_all (\<lambda>s. 0 \<le> s) (map (fst \<circ> snd) ks)"
    using assms(1) by (simp_all add: kept list_all_iff)
  have conf_entry: "\<And>r. conf (detection_entry r) = truncate_float (fst (snd r)) CONF_DIGITS"
    by (simp add: detection_entry_def split: prod.splits)
  have "truncate_float (fold max (map (fst \<circ> snd) kept) 0) CONF_DIGITS =
        truncate_float (fold max (map (fst \<circ> snd) ks) (fst (snd k))) CONF_DIGITS"
    using k0 by (simp add: kept max_def)
  also have "\<dots> = fold max (map (\<lambda>s. truncate_float s CONF_DIGITS) (map (fst \<circ> snd) ks))
                     (truncate_float (fst (snd k)) CONF_DIGITS)"
    by (rule truncate_float_fold_max [OF ks0 k0])
  also have "\<dots> = fold max (map (conf \<circ> detection_entry) ks) (conf (detection_entry k))"
    by (simp add: conf_entry comp_def)
  also have "\<dots> = Max (set (map (conf \<circ> detection_entry) kept))"
    using Max.set_eq_fold [of "conf (detection_entry k)" "map (conf \<circ> detection_entry) ks"]
    by (simp only: kept list.map comp_apply)
  also have "\<dots> = Max (conf ` set (map detection_entry kept))"
    by (simp add: image_comp)
  finally show ?thesis .
qed

lemma kept_nonneg:
  assumes "0 \<le> thr \<or> list_all (\<lambda>(b, s, c). 0 \<le> s) raws"
  shows "list_all (\<lambda>r. 0 \<le> fst (snd r)) (filter (passes thr) raws)"
  using assms by (auto simp: list_all_iff passes_def)

text \<open>
  C6. Every successfully built result has a detections list \<open>ds\<close> and a maximal
  confidence \<open>m\<close> with: \<open>m\<close> is never negative; \<open>m\<close> is 0 when \<open>ds\<close> is empty; and when
  \<open>ds\<close> is not empty, \<open>m\<close> is the largest confidence of the detections in \<open>ds\<close>. The last
  part is for confidences as the data model has them, in \<open>[0, 1]\<close>: the proof needs only
  that no raw score is negative, or that the threshold is not.
\<close>

theorem max_detection_conf_is_maximum:
  "\<exists>ds m. fst (generate_detections_one_image (session_returning raws) img image_id thr) =
            \<lparr>file_name = image_id, max_detection_conf = Some m, detections = Some ds,
             failure = None\<rparr>
         \<and> 0 \<le> m
         \<and> (ds = [] \<longrightarrow> m = 0)
         \<and> ((0 \<le> thr \<or> list_all (\<lambda>(b, s, c). 0 \<le> s) raws) \<longrightarrow> ds \<noteq> [] \<longrightarrow>
              m = Max (conf ` set ds))"
proof -
  let ?kept = "filter (passes thr) raws"
  let ?m = "truncate_float (fold max (map (fst \<circ> snd) ?kept) 0) CONF_DIGITS"
  let ?ds = "map detection_entry ?kept"
  have res: "fst (generate_detections_one_image (session_returning raws) img image_id thr) =
      \<lparr>file_name = image_id, max_detection_conf = Some ?m, detections = Some ?ds, failure = None\<rparr>"
    by (simp add: generate_char)
  have nonneg: "0 \<le> ?m"
    by (rule truncate_float_nonneg) (simp add: fold_max_nonneg)
  have empty: "?ds = [] \<longrightarrow> ?m = 0"
    by (auto simp: truncate_float_zero)
  have mx: "(0 \<le> thr \<or> list_all (\<lambda>(b, s, c). 0 \<le> s) raws) \<longrightarrow> ?ds \<noteq> [] \<longrightarrow>
      ?m = Max (conf ` set ?ds)"
    using Max_conf_kept [of ?kept] kept_nonneg [of thr raws] by auto
  from res nonneg empty mx show ?thesis by blast
qed

text \<open>
  Two detections above the threshold 0.1, with scores 0.3 and 0.8 in \<open>[0, 1]\<close>: both are
  listed and the maximal confidence is the larger of their confidences. With no raw
  detection at all the list is empty and the maximal confidence is 0.
\<close>

theorem max_detection_conf_is_maximum_witness:
  "((0 :: real) \<le> 1 / 10 \<or> list_all (\<lambda>(b, s, c). (0 :: real) \<le> s)
        [((0, 0, 1 / 2, 1 / 2) :: tf_box, 3 / 10, 2 :: int), ((0, 0, 1, 1), 8 / 10, 1)])
   \<and> detections (fst (generate_detections_one_image
        (session_returning [((0, 0, 1 / 2, 1 / 2), 3 / 10, 2), ((0, 0, 1, 1), 8 / 10, 1)])
        (0 :: nat) ''id'' (1 / 10))) =
       Some [\<lparr>category = ''2'', conf = 3 / 10, bbox = [0, 0, 1 / 2, 1 / 2]\<rparr>,
             \<lparr>category = ''1'', conf = 8 / 10, bbox = [0, 0, 1, 1]\<rparr>]
   \<and> max_detection_conf (fst (generate_detections_one_image
        (session_returning [((0, 0, 1 / 2, 1 / 2), 3 / 10, 2), ((0, 0, 1, 1), 8 / 10, 1)])
        (0 :: nat) ''id'' (1 / 10))) =
       Some (Max (conf ` set [\<lparr>category = ''2'', conf = 3 / 10, bbox = [0, 0, 1 / 2, 1 / 2]\<rparr>,
             \<lparr>category = ''1'', conf = 8 / 10, bbox = [0, 0, 1, 1]\<rparr>]))
   \<and> max_detection_conf (fst (generate_detections_one_image
        (session_returning []) (0 :: nat) ''id'' (1 / 10))) = Some 0"
proof -
  let ?raws = "[((0, 0, 1 / 2, 1 / 2), 3 / 10, 2), ((0, 0, 1, 1), 8 / 10, 1)] :: raw_detection list"
  let ?res = "fst (generate_detections_one_image (session_returning ?raws) (0 :: nat) ''id''
      (1 / 10))"
  let ?ds = "[\<lparr>category = ''2'', conf = 3 / 10, bbox = [0, 0, 1 / 2, 1 / 2]\<rparr>,
             \<lparr>category = ''1'', conf = 8 / 10, bbox = [0, 0, 1, 1]\<rparr>]"
  let ?none = "fst (generate_detections_one_image (session_returning []) (0 :: nat) ''id''
      (1 / 10))"
  have ev: "detections ?res = Some ?ds"
    by (simp add: generate_char passes_def detection_entry_def str_int_small
      truncate_float_def CONF_DIGITS_def COORD_DIGITS_def round_and_make_float_def
      float32_binade round_half_even_def Let_def)
  have ev0: "detections ?none = Some []"
    by (simp add: generate_char)
  from max_detection_conf_is_maximum [of ?raws "0 :: nat" "''id''" "1 / 10"]
  obtain ds m where r: "?res = \<lparr>file_name = ''id'', max_detection_conf = Some m,
        detections = Some ds, failure = None\<rparr>"
    and mx: "(0 \<le> (1 / 10 :: real) \<or> list_all (\<lambda>(b, s, c). 0 \<le> s) ?raws) \<longrightarrow> ds \<noteq> [] \<longrightarrow>
          m = Max (conf ` set ds)"
    by blast
  from r ev have ds: "ds = ?ds" by simp
  with mx have "m = Max (conf ` set ?ds)" by simp
  with r have one: "max_detection_conf ?res = Some (Max (conf ` set ?ds))" by simp
  from max_detection_conf_is_maximum [of "[]" "0 :: nat" "''id''" "1 / 10"]
  obtain ds0 m0 where r0: "?none = \<lparr>file_name = ''id'', max_detection_conf = Some m0,
        detections = Some ds0, failure = None\<rparr>"
    and e0: "ds0 = [] \<longrightarrow> m0 = 0"
    by blast
  from r0 ev0 have "ds0 = []" by simp
  with e0 r0 have two: "max_detection_conf ?none = Some 0" by simp
  from ev one two show ?thesis by simp
qed

text \<open>
  Outside the data model the last part does not hold: with the threshold \<open>-1\<close> a
  detection of score \<open>-0.5\<close> is listed, and the maximum stays at its initial 0.
\<close>

lemma max_detection_conf_negative_score_example:
  "generate_detections_one_image (session_returning [((0, 0, 1, 1), - (1 / 2), 2)])
     (0 :: nat) ''id'' (- 1) =
   (\<lparr>file_name = ''id'', max_detection_conf = Some 0,
     detections = Some [\<lparr>category = ''2'', conf = - (1 / 2), bbox = [0, 0, 1, 1]\<rparr>],
     failure = None\<rparr>, 0)"
  by (simp add: generate_char passes_def detection_entry_def str_int_small
      truncate_float_def CONF_DIGITS_def COORD_DIGITS_def round_and_make_float_def
      float32_binade round_half_even_def Let_def)

section \<open>The end-to-end example\<close>

text \<open>
  C2. For the raw detections
  \<open>[{box: [0.1, 0.2, 0.4, 0.5], score: 0.92, class: 1}, {box: [0, 0, 1, 1], score: 0.99, class: 3}]\<close>
  and the output threshold 0.1, \<open>generate_detections_one_image\<close> returns exactly one
  detection, with bbox \<open>[0.2, 0.1, 0.3, 0.3]\<close>, confidence 0.92 and category "1"; the
  maximal confidence is 0.92; no failure is reported; the animal flag is 1; and nothing
  of the class-3 detection is in the result.
\<close>

theorem end_to_end_example:
  "generate_detections_one_image
     (session_returning
        [((1 / 10, 2 / 10, 4 / 10, 5 / 10), 92 / 100, 1), ((0, 0, 1, 1), 99 / 100, 3)])
     (0 :: nat) ''frame'' (1 / 10) =
   (\<lparr>file_name = ''frame'',
     max_detection_conf = Some (92 / 100),
     detections = Some [\<lparr>category = ''1'', conf = 92 / 100, bbox = [2 / 10, 1 / 10, 3 / 10, 3 / 10]\<rparr>],
     failure = None\<rparr>, 1)"
  by (simp add: generate_char passes_def detection_entry_def str_int_small
      truncate_float_def CONF_DIGITS_def COORD_DIGITS_def round_and_make_float_def
      float32_binade round_half_even_def Let_def)

section \<open>Inference failures\<close>

lemma generate_failure:
  assumes "tf_session img = Inl e"
  shows "generate_detections_one_image tf_session img image_id thr =
     (\<lparr>file_name = image_id, max_detection_conf = None, detections = None,
       failure = Some FAILURE_TF_INFER\<rparr>, 0)"
  using assms
  by (simp add: generate_detections_one_image_def try_body_def
      private_generate_detections_one_image_def)

text \<open>
  The failure result has no key \<open>detections\<close>, and \<open>load_and_run_detector\<close> reads that
  key whatever the result is: an inference failure becomes a KeyError of the caller.
\<close>

lemma load_and_run_detector_failure:
  assumes "tf_session img = Inl e"
  shows "load_and_run_detector tf_session render img = Inl (KeyError ''detections'')"
  using assms by (simp add: load_and_run_detector_def generate_failure)

text \<open>
  C1, evaluated where it fails. The session raises on frame 0 and works on frame 1.
  \<open>generate_detections_one_image\<close> does return a result with the failure tag for frame
  0, and the session's exception stops there. But \<open>load_and_run_detector\<close> raises
  KeyError on that result, the server loop has no handler, and the loop ends in its
  first cycle, after the reply to the sender: frame 1 is never processed.
\<close>

theorem inference_failure_halts_server_loop:
  "generate_detections_one_image example_session (0 :: nat) (0 :: nat) (1 / 10) =
     (\<lparr>file_name = 0, max_detection_conf = None, detections = None,
       failure = Some ''Failure TF inference''\<rparr>, 0)
   \<and> load_and_run_detector example_session (\<lambda>ds img label_map thr. img) 0 =
       Inl (KeyError ''detections'')
   \<and> server_loop example_session (\<lambda>ds img label_map thr. img) (\<lambda>rpiName frame. frame)
       [(''cam'', 0, 0), (''cam'', 1, 0)] [] =
       ([SendReply], Crashed (KeyError ''detections''))"
  by (simp add: generate_failure load_and_run_detector_failure example_session_def
      FAILURE_TF_INFER_def)

text \<open>
  For comparison, two frames on which inference works: each is shown and raises the
  alert, and the loop ends only with the key \<open>q\<close> (code 113).
\<close>

lemma example_session_returning:
  "frame \<noteq> 0 \<Longrightarrow>
     generate_detections_one_image example_session frame image_id thr =
     generate_detections_one_image
       (session_returning [((1 / 10, 2 / 10, 4 / 10, 5 / 10), 92 / 100, 1)]) frame image_id thr"
  by (simp add: generate_detections_one_image_def try_body_def
      private_generate_detections_one_image_def example_session_def session_returning_def)

lemma server_loop_healthy_example:
  "server_loop example_session (\<lambda>ds img label_map thr. img) (\<lambda>rpiName frame. frame)
       [(''cam'', 1, 0), (''cam'', 2, 113)] [] =
       ([SendReply, ImShow 1, Beep 2500 500, SendReply, ImShow 2, Beep 2500 500], Quit)"
  by (simp add: load_and_run_detector_def example_session_returning generate_char)

text \<open>
  C10. If the session raises for the frame the server hands to the detector, the flag
  returned with the failure-tagged result is 0, and the server's cycle for that frame
  emits nothing but the reply to the sender: no alert is raised.
\<close>

theorem failure_keeps_animal_flag_zero:
  assumes "tf_session (prepare rpiName frame) = Inl e"
  shows "generate_detections_one_image tf_session (prepare rpiName frame) image_id thr =
           (\<lparr>file_name = image_id, max_detection_conf = None, detections = None,
             failure = Some FAILURE_TF_INFER\<rparr>, 0)
         \<and> fst (server_loop tf_session render prepare ((rpiName, frame, waitKey) # rest) evs) =
             evs @ [SendReply]"
  using assms by (simp add: generate_failure load_and_run_detector_failure)

theorem failure_keeps_animal_flag_zero_witness:
  "example_session ((\<lambda>rpiName frame. frame) ''cam'' 0) = Inl (Raised ''inference failed'')
   \<and> snd (generate_detections_one_image example_session 0 ''id'' (1 / 10)) = 0
   \<and> fst (server_loop example_session (\<lambda>ds img label_map thr. img) (\<lambda>rpiName frame. frame)
           [(''cam'', 0, 0), (''cam'', 1, 0)] []) = [SendReply]"
proof -
  have h: "example_session ((\<lambda>rpiName frame. frame) ''cam'' 0) = Inl (Raised ''inference failed'')"
    by (simp add: example_session_def)
  from h failure_keeps_animal_flag_zero [where tf_session = example_session
      and prepare = "\<lambda>rpiName frame. frame"
      and rpiName = "''cam''" and frame = 0 and e = "Raised ''inference failed''"
      and image_id = "''id''" and thr = "1 / 10" and render = "\<lambda>ds img label_map thr. img"
      and waitKey = 0 and rest = "[(''cam'', 1, 0)]" and evs = "[]"]
  show ?thesis by simp
qed

end
